theory Spec2Isabelle
  imports Main
begin

section \<open>Values and errors\<close>

text \<open>
  The flagging callbacks of \<^verbatim>\<open>gradio/flagging.py\<close> write rows of cells with Python's
  \<^verbatim>\<open>csv\<close> module and read them back with it. A cell handed to \<^verbatim>\<open>csv.writer\<close> is a
  Python object: a string, a number or \<^verbatim>\<open>None\<close>. A Python string is held as the list
  of the bytes of its UTF-8 encoding, a file as the list of its bytes, and the numbers are
  the integers. What a caller passes in, a label, a user name or what the serializer
  returns, is a text that UTF-8 encodes; the bytes of a file need not be the encoding of
  any text.
\<close>

datatype cell = CStr string | CInt int | CNone

datatype error =
  ValueError | IndexError | TypeError | FileNotFoundError | CsvError | UnicodeDecodeError

abbreviation CR :: char where "CR \<equiv> CHR 0x0D"
abbreviation LF :: char where "LF \<equiv> CHR 0x0A"
abbreviation delimiter :: char where "delimiter \<equiv> CHR '',''"

text \<open>Python's \<^verbatim>\<open>str\<close> on an integer, and on a cell (as \<^verbatim>\<open>str.format\<close> applies it).\<close>

fun str_nat :: "nat \<Rightarrow> string" where
  "str_nat n = (if n < 10 then [''0123456789'' ! n]
                else str_nat (n div 10) @ [''0123456789'' ! (n mod 10)])"

declare str_nat.simps [simp del]

definition str_int :: "int \<Rightarrow> string" where
  "str_int i = (if i < 0 then CHR ''-'' # str_nat (nat (- i)) else str_nat (nat i))"


section \<open>Decoding UTF-8\<close>

text \<open>
  A file opened in text mode with \<^verbatim>\<open>encoding="utf-8"\<close> is decoded when it is read, and
  \<^verbatim>\<open>bytes.decode()\<close> decodes the same way: bytes that are not the UTF-8 encoding of a text
  raise UnicodeDecodeError. The decoder is strict: it accepts neither an overlong form,
  nor a surrogate, nor a code point past \<^verbatim>\<open>U+10FFFF\<close>. A byte \<^verbatim>\<open>10xxxxxx\<close> continues a
  character; the characters of a text are counted by the bytes that do not.
\<close>

definition is_continuation :: "char \<Rightarrow> bool" where
  "is_continuation c = (digit7 c \<and> \<not> digit6 c)"

fun utf8_valid :: "string \<Rightarrow> bool" where
  "utf8_valid [] = True"
| "utf8_valid (c # cs) =
     (if \<not> digit7 c then utf8_valid cs
      else if 0xC2 \<le> (of_char c :: nat) \<and> (of_char c :: nat) \<le> 0xDF then
        (case cs of
           c1 # r \<Rightarrow> is_continuation c1 \<and> utf8_valid r
         | _ \<Rightarrow> False)
      else if 0xE0 \<le> (of_char c :: nat) \<and> (of_char c :: nat) \<le> 0xEF then
        (case cs of
           c1 # c2 # r \<Rightarrow>
             is_continuation c1 \<and> is_continuation c2
             \<and> (if (of_char c :: nat) = 0xE0 then 0xA0 \<le> (of_char c1 :: nat) else True)
             \<and> (if (of_char c :: nat) = 0xED then (of_char c1 :: nat) \<le> 0x9F else True)
             \<and> utf8_valid r
         | _ \<Rightarrow> False)
      else if 0xF0 \<le> (of_char c :: nat) \<and> (of_char c :: nat) \<le> 0xF4 then
        (case cs of
           c1 # c2 # c3 # r \<Rightarrow>
             is_continuation c1 \<and> is_continuation c2 \<and> is_continuation c3
             \<and> (if (of_char c :: nat) = 0xF0 then 0x90 \<le> (of_char c1 :: nat) else True)
             \<and> (if (of_char c :: nat) = 0xF4 then (of_char c1 :: nat) \<le> 0x8F else True)
             \<and> utf8_valid r
         | _ \<Rightarrow> False)
      else False)"

definition utf8_decode :: "string \<Rightarrow> error + string" where
  "utf8_decode bytes = (if utf8_valid bytes then Inr bytes else Inl UnicodeDecodeError)"

definition utf8_length :: "string \<Rightarrow> nat" where
  "utf8_length s = length (filter (\<lambda>c. \<not> is_continuation c) s)"

section \<open>The csv module\<close>

subsection \<open>csv.writer\<close>

text \<open>
  \<^verbatim>\<open>csv.writer(f, quoting=..., quotechar=...)\<close> in the excel dialect: delimiter \<^verbatim>\<open>,\<close>,
  doubled quote characters, no escape character, line terminator \<^verbatim>\<open>\r\n\<close>. The two
  quoting modes the callbacks use are the default \<^verbatim>\<open>QUOTE_MINIMAL\<close> and
  \<^verbatim>\<open>QUOTE_NONNUMERIC\<close>.
\<close>

datatype quoting = QUOTE_MINIMAL | QUOTE_NONNUMERIC

fun is_number :: "cell \<Rightarrow> bool" where
  "is_number (CInt i) = True"
| "is_number c = False"

fun field_text :: "cell \<Rightarrow> string" where
  "field_text (CStr s) = s"
| "field_text (CInt i) = str_int i"
| "field_text CNone = []"

definition needs_quotes :: "char \<Rightarrow> string \<Rightarrow> bool" where
  "needs_quotes q s = list_ex (\<lambda>c. c = delimiter \<or> c = q \<or> c = CR \<or> c = LF) s"

fun join_append_data :: "char \<Rightarrow> string \<Rightarrow> string" where
  "join_append_data q [] = []"
| "join_append_data q (c # cs) =
     (if c = q then q # q # join_append_data q cs else c # join_append_data q cs)"

definition join_append :: "quoting \<Rightarrow> char \<Rightarrow> cell \<Rightarrow> string" where
  "join_append qt q field =
     (let quoted = (case qt of QUOTE_NONNUMERIC \<Rightarrow> \<not> is_number field | QUOTE_MINIMAL \<Rightarrow> False);
          s = field_text field
      in if quoted \<or> needs_quotes q s then q # join_append_data q s @ [q] else s)"

fun join_fields :: "string list \<Rightarrow> string" where
  "join_fields [] = []"
| "join_fields [f] = f"
| "join_fields (f # fs) = f @ delimiter # join_fields fs"

definition writerow :: "quoting \<Rightarrow> char \<Rightarrow> cell list \<Rightarrow> string" where
  "writerow qt q row =
     (let rec = join_fields (map (join_append qt q) row)
      in (if row \<noteq> [] \<and> rec = [] then [q, q] else rec) @ [CR, LF])"

definition writerows :: "quoting \<Rightarrow> char \<Rightarrow> cell list list \<Rightarrow> string" where
  "writerows qt q rows = concat (map (writerow qt q) rows)"

subsection \<open>csv.reader\<close>

text \<open>
  \<^verbatim>\<open>csv.reader(lines)\<close> with no further argument: the excel dialect with quote character
  \<^verbatim>\<open>"\<close>. The reader is the state machine of the module's \<^verbatim>\<open>parse_process_char\<close>; the
  states for an escape character are left out, since the dialect has none. \<^verbatim>\<open>None\<close>
  stands for the end of a line. A field of more characters than
  \<^verbatim>\<open>csv.field_size_limit()\<close> is an error: the reader refuses the character that would
  take the field past the limit. The reader is given the bytes of a decoded text, in
  which the bytes that continue a character are neither delimiters nor quotes nor line
  ends and count for nothing. A NUL character is read like any other, as Python 3.11
  does.
\<close>

datatype parser_state =
  START_RECORD | START_FIELD | IN_FIELD | IN_QUOTED_FIELD | QUOTE_IN_QUOTED_FIELD | EAT_CRNL

type_synonym parser = "parser_state \<times> string list \<times> string"

abbreviation reader_quotechar :: char where "reader_quotechar \<equiv> CHR 0x22"

definition field_limit :: nat where
  "field_limit = 131072"

definition parse_add_char :: "parser_state \<Rightarrow> string list \<Rightarrow> string \<Rightarrow> char \<Rightarrow> error + parser" where
  "parse_add_char st fields field c =
     (if \<not> is_continuation c \<and> field_limit \<le> utf8_length field then Inl CsvError
      else Inr (st, fields, field @ [c]))"

definition end_of_field :: "char option \<Rightarrow> string list \<Rightarrow> string \<Rightarrow> error + parser" where
  "end_of_field c fields field =
     Inr (if c = None then START_RECORD else EAT_CRNL, fields @ [field], [])"

definition start_field :: "string list \<Rightarrow> string \<Rightarrow> char option \<Rightarrow> error + parser" where
  "start_field fields field c =
     (case c of
        None \<Rightarrow> end_of_field c fields field
      | Some ch \<Rightarrow>
          if ch = LF \<or> ch = CR then end_of_field c fields field
          else if ch = reader_quotechar then Inr (IN_QUOTED_FIELD, fields, field)
          else if ch = delimiter then Inr (START_FIELD, fields @ [field], [])
          else parse_add_char IN_FIELD fields field ch)"

fun parse_process_char :: "parser \<Rightarrow> char option \<Rightarrow> error + parser" where
  "parse_process_char (START_RECORD, fields, field) c =
     (case c of
        None \<Rightarrow> Inr (START_RECORD, fields, field)
      | Some ch \<Rightarrow>
          if ch = LF \<or> ch = CR then Inr (EAT_CRNL, fields, field)
          else start_field fields field c)"
| "parse_process_char (START_FIELD, fields, field) c = start_field fields field c"
| "parse_process_char (IN_FIELD, fields, field) c =
     (case c of
        None \<Rightarrow> end_of_field c fields field
      | Some ch \<Rightarrow>
          if ch = LF \<or> ch = CR then end_of_field c fields field
          else if ch = delimiter then Inr (START_FIELD, fields @ [field], [])
          else parse_add_char IN_FIELD fields field ch)"
| "parse_process_char (IN_QUOTED_FIELD, fields, field) c =
     (case c of
        None \<Rightarrow> Inr (IN_QUOTED_FIELD, fields, field)
      | Some ch \<Rightarrow>
          if ch = reader_quotechar then Inr (QUOTE_IN_QUOTED_FIELD, fields, field)
          else parse_add_char IN_QUOTED_FIELD fields field ch)"
| "parse_process_char (QUOTE_IN_QUOTED_FIELD, fields, field) c =
     (case c of
        None \<Rightarrow> end_of_field c fields field
      | Some ch \<Rightarrow>
          if ch = reader_quotechar then parse_add_char IN_QUOTED_FIELD fields field ch
          else if ch = delimiter then Inr (START_FIELD, fields @ [field], [])
          else if ch = LF \<or> ch = CR then end_of_field c fields field
          else parse_add_char IN_FIELD fields field ch)"
| "parse_process_char (EAT_CRNL, fields, field) c =
     (case c of
        None \<Rightarrow> Inr (START_RECORD, fields, field)
      | Some ch \<Rightarrow>
          if ch = LF \<or> ch = CR then Inr (EAT_CRNL, fields, field)
          else Inl CsvError)"

fun parse_line :: "parser \<Rightarrow> string \<Rightarrow> error + parser" where
  "parse_line p [] = parse_process_char p None"
| "parse_line p (c # cs) =
     (case parse_process_char p (Some c) of
        Inl e \<Rightarrow> Inl e
      | Inr p' \<Rightarrow> parse_line p' cs)"

text \<open>
  \<^verbatim>\<open>list(csv.reader(lines))\<close>: a record ends when the parser is back in \<^verbatim>\<open>START_RECORD\<close>
  after a line; input that ends inside a quoted field yields the record read so far.
\<close>

fun csv_reader_from :: "parser \<Rightarrow> string list \<Rightarrow> error + string list list" where
  "csv_reader_from (st, fields, field) [] =
     (if field = [] \<and> st \<noteq> IN_QUOTED_FIELD then Inr [] else Inr [fields @ [field]])"
| "csv_reader_from p (line # lines) =
     (case parse_line p line of
        Inl e \<Rightarrow> Inl e
      | Inr (st, fields, field) \<Rightarrow>
          if st = START_RECORD then
            (case csv_reader_from (START_RECORD, [], []) lines of
               Inl e \<Rightarrow> Inl e
             | Inr rows \<Rightarrow> Inr (fields # rows))
          else csv_reader_from (st, fields, field) lines)"

definition csv_reader :: "string list \<Rightarrow> error + string list list" where
  "csv_reader lines = csv_reader_from (START_RECORD, [], []) lines"

subsection \<open>Lines of a text stream\<close>

text \<open>
  Iterating a text stream yields its lines, each with its terminating \<^verbatim>\<open>\n\<close>.
  \<^verbatim>\<open>io.StringIO(s)\<close> ends lines at \<^verbatim>\<open>\n\<close> only and translates nothing. A file opened
  for reading in text mode without a \<^verbatim>\<open>newline\<close> argument translates \<^verbatim>\<open>\r\n\<close> and
  \<^verbatim>\<open>\r\<close> to \<^verbatim>\<open>\n\<close> first.
\<close>

fun lines_from :: "string \<Rightarrow> string \<Rightarrow> string list" where
  "lines_from cur [] = (if cur = [] then [] else [cur])"
| "lines_from cur (c # cs) =
     (if c = LF then (cur @ [c]) # lines_from [] cs else lines_from (cur @ [c]) cs)"

definition readlines :: "string \<Rightarrow> string list" where
  "readlines s = lines_from [] s"

fun universal_newlines :: "string \<Rightarrow> string" where
  "universal_newlines [] = []"
| "universal_newlines [c] = (if c = CR then [LF] else [c])"
| "universal_newlines (c # d # cs) =
     (if c = CR \<and> d = LF then LF # universal_newlines cs
      else if c = CR then LF # universal_newlines (d # cs)
      else c # universal_newlines (d # cs))"

section \<open>The file system, the remote repository and the effects of a call\<close>

text \<open>
  The world a callback runs in is the content of the files it can see and a journal of
  the effects performed so far, oldest first. A computation takes the world and returns
  a value or the exception raised, with the world as it is then: what was written before
  an exception stays written.
\<close>

datatype event =
    GitPull
  | PushToHub string
  | SaveFlagged nat
  | Create string
  | Truncate string
  | Write string string

record world =
  files :: "string \<rightharpoonup> string"
  journal :: "event list"

type_synonym 'a io = "world \<Rightarrow> (error + 'a) \<times> world"

definition io_return :: "'a \<Rightarrow> 'a io" where
  "io_return x w = (Inr x, w)"

definition io_lift :: "error + 'a \<Rightarrow> 'a io" where
  "io_lift r w = (r, w)"

definition io_bind :: "'a io \<Rightarrow> ('a \<Rightarrow> 'b io) \<Rightarrow> 'b io" where
  "io_bind m f w = (case m w of (Inl e, w') \<Rightarrow> (Inl e, w') | (Inr x, w') \<Rightarrow> f x w')"

definition log_event :: "event \<Rightarrow> unit io" where
  "log_event ev w = (Inr (), w\<lparr>journal := journal w @ [ev]\<rparr>)"

text \<open>
  \<^verbatim>\<open>os.path.exists\<close>, and the built-in \<^verbatim>\<open>open(path, mode, encoding=...)\<close>: a binary mode
  with an encoding is refused before the file is touched; mode \<^verbatim>\<open>r\<close> needs the file,
  mode \<^verbatim>\<open>w\<close> empties it, mode \<^verbatim>\<open>a\<close> creates it when it is missing. Reading gives the
  bytes of the file; a stream opened in text mode decodes them, which is written out
  with \<open>utf8_decode\<close> wherever the code reads such a stream (lines 107, 219, 226 and
  367).
\<close>

definition path_exists :: "string \<Rightarrow> bool io" where
  "path_exists path w = (Inr (files w path \<noteq> None), w)"

definition py_open :: "string \<Rightarrow> string \<Rightarrow> string option \<Rightarrow> unit io" where
  "py_open path mode encoding w =
     (if CHR ''b'' \<in> set mode \<and> encoding \<noteq> None then (Inl ValueError, w)
      else if CHR ''r'' \<in> set mode then
        (if files w path = None then (Inl FileNotFoundError, w) else (Inr (), w))
      else if CHR ''w'' \<in> set mode then
        (Inr (), w\<lparr>files := (files w)(path \<mapsto> []), journal := journal w @ [Truncate path]\<rparr>)
      else if files w path = None then
        (Inr (), w\<lparr>files := (files w)(path \<mapsto> []), journal := journal w @ [Create path]\<rparr>)
      else (Inr (), w))"

definition file_read :: "string \<Rightarrow> string io" where
  "file_read path w =
     (case files w path of None \<Rightarrow> (Inl FileNotFoundError, w) | Some c \<Rightarrow> (Inr c, w))"

definition file_write :: "string \<Rightarrow> string \<Rightarrow> unit io" where
  "file_write path s w =
     (Inr (), w\<lparr>files := (files w)(path \<mapsto> (case files w path of None \<Rightarrow> s | Some c \<Rightarrow> c @ s)),
                journal := journal w @ [Write path s]\<rparr>)"

definition os_path_join :: "string \<Rightarrow> string \<Rightarrow> string" where
  "os_path_join a b =
     (if b \<noteq> [] \<and> hd b = CHR ''/'' then b
      else if a = [] \<or> last a = CHR ''/'' then a @ b
      else a @ CHR ''/'' # b)"

text \<open>
  Lines 107 to 108, 225 to 226 and 366 to 367: the file is read in text mode and every row
  the default reader finds is counted, less one. Where no encoding is given (line 107) the
  locale's encoding is used, which is taken to be UTF-8. The file is decoded as a whole
  before it is parsed; the code decodes it block by block while the reader asks for
  lines, so that on a file that has both an undecodable byte and an oversized field the
  code may raise the reader's error where the model raises UnicodeDecodeError.
\<close>

definition count_rows :: "string \<Rightarrow> string option \<Rightarrow> int io" where
  "count_rows path encoding =
     io_bind (py_open path ''r'' encoding) (\<lambda>_.
     io_bind (file_read path) (\<lambda>bytes.
     io_bind (io_lift (utf8_decode bytes)) (\<lambda>text.
     io_bind (io_lift (csv_reader (readlines (universal_newlines text)))) (\<lambda>rows.
     io_return (int (length rows) - 1)))))"

section \<open>Components and the collaborators outside the module\<close>

text \<open>
  A component has an optional label and a class; the remote callback looks at the class
  to decide whether the sample has a file preview. A sample is \<^verbatim>\<open>None\<close> or a value of
  some type \<open>'s\<close>. What the module calls but does not define is taken as given:
  \<^verbatim>\<open>component.save_flagged\<close>, the clock, the \<^verbatim>\<open>encryptor\<close> module, what a pull does to
  the local files, and the text that \<^verbatim>\<open>json.dump\<close> writes for the document
  \<^verbatim>\<open>{"flagged": {"features": ...}}\<close> with the given features.
\<close>

datatype component_class =
  InputsAudio | OutputsAudio | InputsImage | OutputsImage | OtherComponent

record component =
  label :: "string option"
  cls :: component_class

type_synonym features = "(string option \<times> (string \<times> string) list) list"

record 's env =
  save_flagged :: "component \<Rightarrow> string \<Rightarrow> string option \<Rightarrow> 's option \<Rightarrow> string option \<Rightarrow> cell"
  now :: string
  encrypt :: "string \<Rightarrow> string \<Rightarrow> string"
  decrypt :: "string \<Rightarrow> string \<Rightarrow> error + string"
  git_pull :: "(string \<rightharpoonup> string) \<Rightarrow> (string \<rightharpoonup> string)"
  json_dumps :: "features \<Rightarrow> string"

text \<open>A call of \<^verbatim>\<open>save_flagged\<close> on the component at position \<open>idx\<close> is journalled.\<close>

definition call_save_flagged ::
  "'s env \<Rightarrow> nat \<Rightarrow> component \<Rightarrow> string \<Rightarrow> string option \<Rightarrow> 's option \<Rightarrow> string option \<Rightarrow> cell io" where
  "call_save_flagged env idx c dir lbl sample key =
     io_bind (log_event (SaveFlagged idx)) (\<lambda>_.
     io_return (save_flagged env c dir lbl sample key))"

definition opt_str :: "string option \<Rightarrow> string" where
  "opt_str s = (case s of None \<Rightarrow> [] | Some x \<Rightarrow> x)"

definition truthy :: "string option \<Rightarrow> bool" where
  "truthy s = (s \<noteq> None \<and> s \<noteq> Some [])"

section \<open>SimpleCSVLogger\<close>

record simple_csv_logger =
  components :: "component list"
  flagging_dir :: string

definition SimpleCSVLogger_setup :: "component list \<Rightarrow> string \<Rightarrow> simple_csv_logger" where
  "SimpleCSVLogger_setup cs dir = \<lparr>components = cs, flagging_dir = dir\<rparr>"

fun simple_csv_data ::
  "'s env \<Rightarrow> string \<Rightarrow> nat \<Rightarrow> (component \<times> 's option) list \<Rightarrow> cell list io" where
  "simple_csv_data env dir idx [] = io_return []"
| "simple_csv_data env dir idx ((c, sample) # rest) =
     io_bind (call_save_flagged env idx c dir (label c) sample None) (\<lambda>x.
     io_bind (simple_csv_data env dir (Suc idx) rest) (\<lambda>xs.
     io_return (x # xs)))"

definition SimpleCSVLogger_flag ::
  "'s env \<Rightarrow> 'a simple_csv_logger_scheme \<Rightarrow> 's option list \<Rightarrow> string option \<Rightarrow> int option \<Rightarrow>
   string option \<Rightarrow> int io" where
  "SimpleCSVLogger_flag env self flag_data flag_option flag_index username =
     (let log_filepath = os_path_join (flagging_dir self) ''log.csv'' in
      io_bind (simple_csv_data env (flagging_dir self) 0 (zip (components self) flag_data)) (\<lambda>csv_data.
      io_bind (py_open log_filepath ''a'' None) (\<lambda>_.
      io_bind (file_write log_filepath (writerow QUOTE_NONNUMERIC (CHR 0x27) csv_data)) (\<lambda>_.
      count_rows log_filepath None))))"

section \<open>CSVLogger\<close>

record csv_logger = simple_csv_logger +
  encryption_key :: "string option"

definition CSVLogger_setup :: "component list \<Rightarrow> string \<Rightarrow> string option \<Rightarrow> csv_logger" where
  "CSVLogger_setup cs dir key = \<lparr>components = cs, flagging_dir = dir, encryption_key = key\<rparr>"

text \<open>\<^verbatim>\<open>component.label or f"component {idx}"\<close>: a missing or empty label gives the fallback.\<close>

definition label_or :: "component \<Rightarrow> nat \<Rightarrow> string" where
  "label_or c idx =
     (if truthy (label c) then opt_str (label c) else ''component '' @ str_nat idx)"

text \<open>Lines 151 to 162: the cells of the samples, in the order of the components.\<close>

fun csv_data_loop ::
  "'s env \<Rightarrow> string \<Rightarrow> string option \<Rightarrow> nat \<Rightarrow> (component \<times> 's option) list \<Rightarrow> cell list io" where
  "csv_data_loop env dir key idx [] = io_return []"
| "csv_data_loop env dir key idx ((c, sample) # rest) =
     io_bind (if sample \<noteq> None
              then call_save_flagged env idx c dir (Some (label_or c idx)) sample key
              else io_return (CStr [])) (\<lambda>x.
     io_bind (csv_data_loop env dir key (Suc idx) rest) (\<lambda>xs.
     io_return (x # xs)))"

text \<open>Lines 167 to 174.\<close>

definition headers_of :: "component list \<Rightarrow> cell list" where
  "headers_of cs =
     map (\<lambda>(idx, c). CStr (label_or c idx)) (enumerate 0 cs)
     @ [CStr ''flag'', CStr ''username'', CStr ''timestamp'']"

subsection \<open>replace\_flag\_at\_index\<close>

definition res_bind :: "error + 'a \<Rightarrow> ('a \<Rightarrow> error + 'b) \<Rightarrow> error + 'b" where
  "res_bind r f = (case r of Inl e \<Rightarrow> Inl e | Inr x \<Rightarrow> f x)"

text \<open>\<^verbatim>\<open>list.index\<close> raises ValueError when the value is absent.\<close>

fun list_index :: "'a list \<Rightarrow> 'a \<Rightarrow> error + nat" where
  "list_index [] x = Inl ValueError"
| "list_index (y # ys) x =
     (if y = x then Inr 0 else res_bind (list_index ys x) (\<lambda>n. Inr (Suc n)))"

text \<open>
  The position that the subscript \<^verbatim>\<open>xs[i]\<close> addresses: a negative \<open>i\<close> counts from the
  end, and a position outside the list raises IndexError.
\<close>

definition py_index :: "'a list \<Rightarrow> int \<Rightarrow> error + nat" where
  "py_index xs i =
     (if 0 \<le> i \<and> i < int (length xs) then Inr (nat i)
      else if i < 0 \<and> - int (length xs) \<le> i then Inr (nat (int (length xs) + i))
      else Inl IndexError)"

text \<open>
  Lines 179 to 181, on the decoded rows: \<^verbatim>\<open>content[0]\<close> is the header, and
  \<^verbatim>\<open>content[flag_index]\<close> is addressed in the same list.
\<close>

definition flag_cell :: "string option \<Rightarrow> cell" where
  "flag_cell flag_option = (case flag_option of None \<Rightarrow> CNone | Some s \<Rightarrow> CStr s)"

definition set_flag_cell :: "int \<Rightarrow> string option \<Rightarrow> cell list list \<Rightarrow> error + cell list list" where
  "set_flag_cell flag_index flag_option content =
     res_bind (py_index content 0) (\<lambda>h.
     res_bind (list_index (content ! h) (CStr ''flag'')) (\<lambda>flag_col_index.
     res_bind (py_index content flag_index) (\<lambda>i.
     res_bind (py_index (content ! i) (int flag_col_index)) (\<lambda>j.
     Inr (content[i := (content ! i)[j := flag_cell flag_option]])))))"

definition replace_flag_at_index :: "int \<Rightarrow> string option \<Rightarrow> string \<Rightarrow> error + string" where
  "replace_flag_at_index flag_index flag_option file_content =
     res_bind (csv_reader (readlines file_content)) (\<lambda>rows.
     res_bind (set_flag_cell flag_index flag_option (map (map CStr) rows)) (\<lambda>content.
     Inr (writerows QUOTE_NONNUMERIC (CHR 0x27) content)))"

subsection \<open>flag\<close>

text \<open>Lines 187 to 207: the branch taken when an encryption key is set.\<close>

definition encrypted_write ::
  "'s env \<Rightarrow> string \<Rightarrow> string \<Rightarrow> bool \<Rightarrow> int option \<Rightarrow> string option \<Rightarrow> cell list \<Rightarrow> cell list \<Rightarrow>
   unit io" where
  "encrypted_write env log_filepath key is_new flag_index flag_option headers csv_data =
     io_bind (if \<not> is_new then
                io_bind (py_open log_filepath ''rb'' (Some ''utf-8'')) (\<lambda>_.
                io_bind (file_read log_filepath) (\<lambda>encrypted_csv.
                io_bind (io_lift (decrypt env key encrypted_csv)) (\<lambda>decrypted_csv.
                io_bind (io_lift (utf8_decode decrypted_csv)) (\<lambda>file_content.
                case flag_index of
                  None \<Rightarrow> io_return file_content
                | Some i \<Rightarrow> io_lift (replace_flag_at_index i flag_option file_content)))))
              else io_return []) (\<lambda>output.
     io_bind (io_return
                (output @
                 (if flag_index = None then
                    (if is_new then writerow QUOTE_NONNUMERIC (CHR 0x27) headers else [])
                    @ writerow QUOTE_NONNUMERIC (CHR 0x27) csv_data
                  else []))) (\<lambda>output.
     io_bind (py_open log_filepath ''wb'' (Some ''utf-8'')) (\<lambda>_.
     file_write log_filepath (encrypt env key output))))"

text \<open>Lines 208 to 224: the branch taken without a key.\<close>

definition plain_write ::
  "string \<Rightarrow> bool \<Rightarrow> int option \<Rightarrow> string option \<Rightarrow> cell list \<Rightarrow> cell list \<Rightarrow> unit io" where
  "plain_write log_filepath is_new flag_index flag_option headers csv_data =
     (case flag_index of
        None \<Rightarrow>
          io_bind (py_open log_filepath ''a'' (Some ''utf-8'')) (\<lambda>_.
          io_bind (if is_new
                   then file_write log_filepath (writerow QUOTE_NONNUMERIC (CHR 0x27) headers)
                   else io_return ()) (\<lambda>_.
          file_write log_filepath (writerow QUOTE_NONNUMERIC (CHR 0x27) csv_data)))
      | Some i \<Rightarrow>
          io_bind (py_open log_filepath ''r'' (Some ''utf-8'')) (\<lambda>_.
          io_bind (file_read log_filepath) (\<lambda>bytes.
          io_bind (io_lift (utf8_decode bytes)) (\<lambda>text.
          io_bind (io_lift (replace_flag_at_index i flag_option (universal_newlines text)))
            (\<lambda>file_content.
          io_bind (py_open log_filepath ''w'' (Some ''utf-8'')) (\<lambda>_.
          file_write log_filepath file_content))))))"

definition CSVLogger_flag ::
  "'s env \<Rightarrow> 'a csv_logger_scheme \<Rightarrow> 's option list \<Rightarrow> string option \<Rightarrow> int option \<Rightarrow>
   string option \<Rightarrow> int io" where
  "CSVLogger_flag env self flag_data flag_option flag_index username =
     (let log_filepath = os_path_join (flagging_dir self) ''log.csv'' in
      io_bind (path_exists log_filepath) (\<lambda>ex.
      let is_new = \<not> ex in
      io_bind (if flag_index = None then
                 io_bind (csv_data_loop env (flagging_dir self) (encryption_key self) 0
                            (zip (components self) flag_data)) (\<lambda>xs.
                 io_return (xs @ [CStr (opt_str flag_option), CStr (opt_str username),
                                  CStr (now env)]))
               else io_return []) (\<lambda>csv_data.
      let headers = headers_of (components self) in
      io_bind (if truthy (encryption_key self)
               then encrypted_write env log_filepath (opt_str (encryption_key self)) is_new
                      flag_index flag_option headers csv_data
               else plain_write log_filepath is_new flag_index flag_option headers csv_data) (\<lambda>_.
      count_rows log_filepath (Some ''utf-8'')))))"

section \<open>HuggingFaceDatasetSaver\<close>

record hf_saver = simple_csv_logger +
  dataset_name :: string
  path_to_dataset_repo :: string
  dataset_dir :: string
  log_file :: string
  infos_file :: string

text \<open>\<^verbatim>\<open>self.repo.git_pull\<close> and \<^verbatim>\<open>self.repo.push_to_hub\<close>.\<close>

definition repo_git_pull :: "'s env \<Rightarrow> unit io" where
  "repo_git_pull env w =
     (Inr (), w\<lparr>files := git_pull env (files w), journal := journal w @ [GitPull]\<rparr>)"


text \<open>
  \<^verbatim>\<open>setup\<close>: the repository path is what \<^verbatim>\<open>huggingface_hub.create_repo\<close> returned; the
  clone is pulled once.
\<close>

definition HuggingFaceDatasetSaver_setup ::
  "'s env \<Rightarrow> string \<Rightarrow> string \<Rightarrow> component list \<Rightarrow> string \<Rightarrow> hf_saver io" where
  "HuggingFaceDatasetSaver_setup env name repo_path cs dir =
     io_bind (repo_git_pull env) (\<lambda>_.
     io_return \<lparr>components = cs, flagging_dir = dir, dataset_name = name,
                path_to_dataset_repo = repo_path,
                dataset_dir = os_path_join dir name,
                log_file = os_path_join (os_path_join dir name) ''data.csv'',
                infos_file = os_path_join (os_path_join dir name) ''dataset_infos.json''\<rparr>)"








section \<open>Example inputs\<close>

text \<open>
  A serializer that returns the sample itself as a string cell, a clock that always
  answers \<^verbatim>\<open>t\<close>, a pull that changes nothing; a world with no file; the default
  callback on one component labelled \<^verbatim>\<open>prompt\<close>, in directory \<^verbatim>\<open>d\<close>, without a key.
\<close>

definition example_env :: "string env" where
  "example_env =
     \<lparr>save_flagged = (\<lambda>c dir lbl sample key. CStr (opt_str sample)),
      now = ''t'',
      encrypt = (\<lambda>key s. rev s),
      decrypt = (\<lambda>key s. Inr (rev s)),
      git_pull = (\<lambda>fs. fs),
      json_dumps = (\<lambda>feats. ''{}'')\<rparr>"

definition fresh :: world where
  "fresh = \<lparr>files = Map.empty, journal = []\<rparr>"

definition prompt :: component where
  "prompt = \<lparr>label = Some ''prompt'', cls = OtherComponent\<rparr>"

definition prompt_logger :: csv_logger where
  "prompt_logger = CSVLogger_setup [prompt] ''d'' None"

text \<open>The world after three records \<^verbatim>\<open>r0\<close>, \<^verbatim>\<open>r1\<close>, \<^verbatim>\<open>r2\<close> were flagged on a fresh store.\<close>

definition three_rows :: world where
  "three_rows =
     snd (CSVLogger_flag example_env prompt_logger [Some ''r2''] (Some ''ok'') None None
       (snd (CSVLogger_flag example_env prompt_logger [Some ''r1''] (Some ''ok'') None None
         (snd (CSVLogger_flag example_env prompt_logger [Some ''r0''] (Some ''ok'') None None
            fresh)))))"

text \<open>
  A log of the same shape that some other program wrote without quotes, and a world that
  holds it.
\<close>

definition unquoted_log :: string where
  "unquoted_log =
     ''prompt,flag'' @ [CR, LF] @ ''r0,ok'' @ [CR, LF] @ ''r1,ok'' @ [CR, LF]
     @ ''r2,ok'' @ [CR, LF]"

definition unquoted_world :: world where
  "unquoted_world = \<lparr>files = [''d/log.csv'' \<mapsto> unquoted_log], journal = []\<rparr>"

text \<open>The world after one record was flagged with SimpleCSVLogger on a fresh store.\<close>

definition simple_one_row :: world where
  "simple_one_row =
     snd (SimpleCSVLogger_flag example_env (SimpleCSVLogger_setup [prompt] ''d'')
            [Some ''r0''] None None None fresh)"

text \<open>
  The remote callback on the component \<^verbatim>\<open>prompt\<close>, as \<^verbatim>\<open>setup\<close> leaves it for the
  dataset \<^verbatim>\<open>ds\<close> under the directory \<^verbatim>\<open>d\<close>.
\<close>

definition example_saver :: hf_saver where
  "example_saver =
     \<lparr>components = [prompt], flagging_dir = ''d'', dataset_name = ''ds'',
      path_to_dataset_repo = ''https://hub/ds'', dataset_dir = ''d/ds'',
      log_file = ''d/ds/data.csv'', infos_file = ''d/ds/dataset_infos.json''\<rparr>"

text \<open>The same callback on an image component that has no label.\<close>

definition unlabelled_image_saver :: hf_saver where
  "unlabelled_image_saver =
     example_saver\<lparr>components := [\<lparr>label = None, cls = InputsImage\<rparr>]\<rparr>"

text \<open>
  A log whose second row holds the byte \<^verbatim>\<open>0xFF\<close>, which no UTF-8 text contains, and the
  world after the remote callback on the unlabelled image component raised on a fresh
  store: the log file exists and is empty.
\<close>

definition undecodable_log :: string where
  "undecodable_log = ''prompt,flag'' @ [CR, LF] @ [CHR 0xFF] @ '',ok'' @ [CR, LF]"

definition undecodable_world :: world where
  "undecodable_world = \<lparr>files = [''d/log.csv'' \<mapsto> undecodable_log], journal = []\<rparr>"

definition after_raise :: world where
  "after_raise = \<lparr>files = [''d/ds/data.csv'' \<mapsto> []], journal = [GitPull, Create ''d/ds/data.csv'']\<rparr>"

section \<open>Journals\<close>


text \<open>
  What an interruption leaves behind. The effects of a call on the files are journalled in
  the order in which they happen; a call that is interrupted after some of them leaves
  the files that those effects produce. Neither a pull nor a call of the serializer
  is replayed: the files they touch are outside the model.
\<close>

fun apply_event :: "event \<Rightarrow> (string \<rightharpoonup> string) \<Rightarrow> (string \<rightharpoonup> string)" where
  "apply_event (Create path) fs = fs(path \<mapsto> [])"
| "apply_event (Truncate path) fs = fs(path \<mapsto> [])"
| "apply_event (Write path s) fs =
     fs(path \<mapsto> (case fs path of None \<Rightarrow> s | Some c \<Rightarrow> c @ s))"
| "apply_event ev fs = fs"

fun files_after :: "event list \<Rightarrow> (string \<rightharpoonup> string) \<Rightarrow> (string \<rightharpoonup> string)" where
  "files_after [] fs = fs"
| "files_after (ev # evs) fs = files_after evs (apply_event ev fs)"



section \<open>Unfolding the model\<close>

lemmas io_defs = io_return_def io_lift_def io_bind_def log_event_def path_exists_def py_open_def
  file_read_def file_write_def count_rows_def call_save_flagged_def

lemmas csv_defs = writerow_def writerows_def join_append_def needs_quotes_def csv_reader_def
  readlines_def parse_add_char_def end_of_field_def start_field_def field_limit_def
  utf8_decode_def utf8_length_def is_continuation_def

lemmas logger_defs = CSVLogger_flag_def plain_write_def encrypted_write_def headers_of_def
  label_or_def replace_flag_at_index_def set_flag_cell_def res_bind_def py_index_def flag_cell_def
  CSVLogger_setup_def SimpleCSVLogger_flag_def SimpleCSVLogger_setup_def enumerate_eq_zip
  os_path_join_def opt_str_def truthy_def Let_def

lemmas example_defs = example_env_def fresh_def prompt_def prompt_logger_def unquoted_log_def
  unquoted_world_def example_saver_def simple_one_row_def unlabelled_image_saver_def
  undecodable_log_def undecodable_world_def after_raise_def

lemma three_rows_eq:
  "three_rows =
     \<lparr>files = [''d/log.csv'' \<mapsto>
         writerows QUOTE_NONNUMERIC (CHR 0x27)
           [[CStr ''prompt'', CStr ''flag'', CStr ''username'', CStr ''timestamp''],
            [CStr ''r0'', CStr ''ok'', CStr [], CStr ''t''],
            [CStr ''r1'', CStr ''ok'', CStr [], CStr ''t''],
            [CStr ''r2'', CStr ''ok'', CStr [], CStr ''t'']]],
      journal =
        [SaveFlagged 0, Create ''d/log.csv'',
         Write ''d/log.csv'' (writerow QUOTE_NONNUMERIC (CHR 0x27)
           [CStr ''prompt'', CStr ''flag'', CStr ''username'', CStr ''timestamp'']),
         Write ''d/log.csv'' (writerow QUOTE_NONNUMERIC (CHR 0x27)
           [CStr ''r0'', CStr ''ok'', CStr [], CStr ''t'']),
         SaveFlagged 0,
         Write ''d/log.csv'' (writerow QUOTE_NONNUMERIC (CHR 0x27)
           [CStr ''r1'', CStr ''ok'', CStr [], CStr ''t'']),
         SaveFlagged 0,
         Write ''d/log.csv'' (writerow QUOTE_NONNUMERIC (CHR 0x27)
           [CStr ''r2'', CStr ''ok'', CStr [], CStr ''t''])]\<rparr>"
  by (simp add: three_rows_def example_defs logger_defs io_defs csv_defs)

section \<open>The codec and the row update on the module's own files\<close>

text \<open>
  C2. Codec round trip: decoding the encoded text gives back the same header and rows.
  The module encodes with \<^verbatim>\<open>csv.writer(..., quoting=csv.QUOTE_NONNUMERIC, quotechar="'")\<close>
  (lines 183, 199, 211) and decodes with \<^verbatim>\<open>csv.reader\<close> in its default dialect (line 178),
  whose quote character is \<^verbatim>\<open>"\<close>. On the header \<^verbatim>\<open>prompt, flag\<close> and the record
  \<^verbatim>\<open>a,b\<close>, \<^verbatim>\<open>ok\<close> the decoder returns every cell with the writer's quotes still around
  it and splits the cell with the comma in two.
\<close>

theorem quoted_rows_read_back:
  "csv_reader (readlines (writerows QUOTE_NONNUMERIC (CHR 0x27)
      [[CStr ''prompt'', CStr ''flag''], [CStr ''a,b'', CStr ''ok'']]))
   = Inr [[CHR 0x27 # ''prompt'' @ [CHR 0x27], CHR 0x27 # ''flag'' @ [CHR 0x27]],
          [CHR 0x27 # ''a'', ''b'' @ [CHR 0x27], CHR 0x27 # ''ok'' @ [CHR 0x27]]]"
  by (simp add: csv_defs)

text \<open>
  C1. Row-update addressing: after the records \<^verbatim>\<open>r0\<close>, \<^verbatim>\<open>r1\<close>, \<^verbatim>\<open>r2\<close> were appended,
  updating row 1 with \<^verbatim>\<open>bad\<close> changes the flag cell of \<^verbatim>\<open>r1\<close> only. On the code the call
  raises ValueError and changes nothing: the header cell is read back as \<^verbatim>\<open>'flag'\<close> with
  its quotes, so \<^verbatim>\<open>header.index("flag")\<close> finds no column. On a log of the same rows
  written without quotes, index 1 addresses \<^verbatim>\<open>content[1]\<close>, which is \<^verbatim>\<open>r0\<close>: the header
  is row 0 of the list that \<^verbatim>\<open>flag_index\<close> indexes.
\<close>

theorem update_row_1_after_three_appends:
  "CSVLogger_flag example_env prompt_logger [] (Some ''bad'') (Some 1) None three_rows
     = (Inl ValueError, three_rows)
   \<and> replace_flag_at_index 1 (Some ''bad'') (universal_newlines unquoted_log)
     = Inr (writerows QUOTE_NONNUMERIC (CHR 0x27)
         [[CStr ''prompt'', CStr ''flag''], [CStr ''r0'', CStr ''bad''],
          [CStr ''r1'', CStr ''ok''], [CStr ''r2'', CStr ''ok'']])"
  by (simp add: three_rows_eq example_defs logger_defs io_defs csv_defs)

text \<open>
  C7. Out-of-range update: on a log of three data rows, updating row 5 raises IndexError
  and leaves the file as it was. After three appends the call leaves the file as it was,
  but the exception is the ValueError of the header lookup, raised before the row is
  addressed. On the log written without quotes the exception is IndexError, and nothing
  is written either.
\<close>

theorem update_row_5_after_three_appends:
  "CSVLogger_flag example_env prompt_logger [] (Some ''x'') (Some 5) None three_rows
     = (Inl ValueError, three_rows)
   \<and> CSVLogger_flag example_env prompt_logger [] (Some ''x'') (Some 5) None unquoted_world
     = (Inl IndexError, unquoted_world)"
  by (simp add: three_rows_eq example_defs logger_defs io_defs csv_defs)

section \<open>Row counts\<close>

text \<open>
  C4. Append monotonicity: the N-th append on a fresh store returns N, in every variant.
  SimpleCSVLogger writes no header and still returns the number of rows less one (line
  108): its first call returns 0 and its second 1. In CSVLogger the rows are counted by
  the default reader, for which the writer's quote character is an ordinary character:
  a first record whose sample has a line break in it is counted as two rows.
\<close>

theorem append_counts:
  "fst (SimpleCSVLogger_flag example_env (SimpleCSVLogger_setup [prompt] ''d'')
          [Some ''r0''] None None None fresh) = Inr 0
   \<and> fst (SimpleCSVLogger_flag example_env (SimpleCSVLogger_setup [prompt] ''d'')
          [Some ''r1''] None None None
          (snd (SimpleCSVLogger_flag example_env (SimpleCSVLogger_setup [prompt] ''d'')
                  [Some ''r0''] None None None fresh))) = Inr 1
   \<and> fst (CSVLogger_flag example_env prompt_logger [Some (''a'' @ [LF] @ ''b'')] (Some ''ok'')
          None None fresh) = Inr 2"
  by (simp add: example_defs logger_defs io_defs csv_defs)

section \<open>The encrypted variant\<close>

text \<open>
  C5. Encrypted round trip: with a key set, every write encrypts the whole table and
  every read decrypts it. With a key set the code opens the log file in a binary mode
  and passes an encoding (lines 190 and 204), which \<^verbatim>\<open>open\<close> refuses with ValueError
  before it touches the file: the first flag on a fresh store raises and creates no
  file, and a flag on a store that holds a file raises and leaves it as it was.
\<close>

theorem encrypted_flag_raises:
  "CSVLogger_flag example_env (CSVLogger_setup [prompt] ''d'' (Some ''key''))
     [Some ''r0''] (Some ''ok'') None None fresh
     = (Inl ValueError, fresh\<lparr>journal := [SaveFlagged 0]\<rparr>)
   \<and> CSVLogger_flag example_env (CSVLogger_setup [prompt] ''d'' (Some ''key''))
     [] (Some ''bad'') (Some 1) None unquoted_world
     = (Inl ValueError, unquoted_world)"
  by (simp add: example_defs logger_defs io_defs csv_defs)

section \<open>The append path of CSVLogger\<close>

lemma count_rows_world: "snd (count_rows path encoding w) = w"
  by (simp add: io_defs split: option.splits sum.splits)

lemma count_rows_journal:
  "fst (count_rows path encoding (w\<lparr>journal := j\<rparr>)) = fst (count_rows path encoding w)"
  by (simp add: io_defs split: option.splits sum.splits)

text \<open>The loop of lines 152 to 162, in closed form: its cells and the calls it journals.\<close>

lemma csv_data_loop_run:
  "csv_data_loop env dir key idx zs w =
     (Inr (map (\<lambda>(i, c, s). case s of None \<Rightarrow> CStr []
                 | Some v \<Rightarrow> save_flagged env c dir (Some (label_or c i)) (Some v) key)
             (enumerate idx zs)),
      w\<lparr>journal := journal w @
           map (\<lambda>(i, c, s). SaveFlagged i) (filter (\<lambda>(i, c, s). s \<noteq> None) (enumerate idx zs))\<rparr>)"
proof (induction zs arbitrary: idx w)
  case Nil
  show ?case by (simp add: io_return_def)
next
  case (Cons z zs)
  obtain c s where z: "z = (c, s)" by (cases z)
  show ?case
    by (cases s) (simp_all add: z Cons.IH io_defs)
qed

lemmas bind_steps =
  io_bind_def [where m = "csv_data_loop _ _ _ _ _"]
  io_bind_def [where m = "path_exists _"]
  io_bind_def [where m = "io_return _"]
  io_bind_def [where m = "io_lift _"]
  io_bind_def [where m = "io_bind _ _"]
  io_bind_def [where m = "py_open _ _ _"]
  io_bind_def [where m = "file_read _"]
  io_bind_def [where m = "file_write _ _"]
  io_return_def io_lift_def path_exists_def py_open_def file_read_def file_write_def

lemma CSVLogger_append_world:
  assumes key: "\<not> truthy (encryption_key self)"
    and p: "p = os_path_join (flagging_dir self) ''log.csv''"
    and row: "row = writerow QUOTE_NONNUMERIC (CHR 0x27)
       (map (\<lambda>(i, c, s). case s of None \<Rightarrow> CStr []
                 | Some v \<Rightarrow> save_flagged env c (flagging_dir self) (Some (label_or c i)) (Some v)
                     (encryption_key self))
             (enumerate 0 (zip (components self) flag_data))
        @ [CStr (opt_str flag_option), CStr (opt_str username), CStr (now env)])"
    and saves: "saves = map (\<lambda>(i, c, s). SaveFlagged i)
        (filter (\<lambda>(i, c, s). s \<noteq> None) (enumerate 0 (zip (components self) flag_data)))"
    and hdr: "hdr = writerow QUOTE_NONNUMERIC (CHR 0x27) (headers_of (components self))"
  shows "snd (CSVLogger_flag env self flag_data flag_option None username w) =
     (case files w p of
        None \<Rightarrow> w\<lparr>files := (files w)(p \<mapsto> hdr @ row),
                   journal := journal w @ saves @ [Create p, Write p hdr, Write p row]\<rparr>
      | Some old \<Rightarrow> w\<lparr>files := (files w)(p \<mapsto> old @ row),
                   journal := journal w @ saves @ [Write p row]\<rparr>)"
proof (cases "files w p")
  case None
  then show ?thesis
    using key unfolding CSVLogger_flag_def plain_write_def p row saves hdr
    by (simp add: Let_def bind_steps csv_data_loop_run count_rows_world)
next
  case (Some old)
  then show ?thesis
    using key unfolding CSVLogger_flag_def plain_write_def p row saves hdr
    by (simp add: Let_def bind_steps csv_data_loop_run count_rows_world)
qed

text \<open>
  C10. In the append path of the default local variant, a sample that is \<^verbatim>\<open>None\<close> is
  recorded as the empty string and the serializer is not called for its component; for
  every other sample \<^verbatim>\<open>component.save_flagged\<close> is called and what it returns is the
  cell. For every store, every list of components and every list of samples: the row
  that the call appends to the log file holds, for each pair of a component and a sample
  in order, the empty string or the serializer's result, and the serializer calls that
  the call journals are those of the positions whose sample is not \<^verbatim>\<open>None\<close>, in order
  and before anything is written.
\<close>

theorem none_sample_is_empty_cell:
  assumes "\<not> truthy (encryption_key self)"
  shows "files (snd (CSVLogger_flag env self flag_data flag_option None username w))
           (os_path_join (flagging_dir self) ''log.csv'')
         = Some ((case files w (os_path_join (flagging_dir self) ''log.csv'') of
                    None \<Rightarrow> writerow QUOTE_NONNUMERIC (CHR 0x27) (headers_of (components self))
                  | Some old \<Rightarrow> old)
                 @ writerow QUOTE_NONNUMERIC (CHR 0x27)
                     (map (\<lambda>(i, c, s). case s of
                               None \<Rightarrow> CStr []
                             | Some v \<Rightarrow> save_flagged env c (flagging_dir self)
                                           (Some (label_or c i)) (Some v) (encryption_key self))
                        (enumerate 0 (zip (components self) flag_data))
                      @ [CStr (opt_str flag_option), CStr (opt_str username), CStr (now env)]))
    \<and> filter (\<lambda>ev. case ev of SaveFlagged i \<Rightarrow> True | _ \<Rightarrow> False)
         (drop (length (journal w))
            (journal (snd (CSVLogger_flag env self flag_data flag_option None username w))))
       = map (\<lambda>(i, c, s). SaveFlagged i)
           (filter (\<lambda>(i, c, s). s \<noteq> None) (enumerate 0 (zip (components self) flag_data)))"
proof -
  let ?zs = "enumerate 0 (zip (components self) flag_data)"
  let ?saves = "map (\<lambda>(i, c, s). SaveFlagged i) (filter (\<lambda>(i, c, s). s \<noteq> None) ?zs)"
  have saves: "filter (\<lambda>ev. case ev of SaveFlagged i \<Rightarrow> True | _ \<Rightarrow> False) ?saves = ?saves"
    by (induction ?zs) (auto simp: filter_map comp_def split: prod.splits)
  show ?thesis
    by (cases "files w (os_path_join (flagging_dir self) ''log.csv'')")
       (simp_all add: CSVLogger_append_world [OF assms refl refl refl refl] saves)
qed

theorem none_sample_is_empty_cell_witness:
  "files (snd (CSVLogger_flag example_env
                 (CSVLogger_setup [prompt, \<lparr>label = None, cls = OtherComponent\<rparr>] ''d'' None)
                 [None, Some ''v''] (Some ''ok'') None None fresh)) ''d/log.csv''
     = Some (writerows QUOTE_NONNUMERIC (CHR 0x27)
         [[CStr ''prompt'', CStr ''component 1'', CStr ''flag'', CStr ''username'', CStr ''timestamp''],
          [CStr [], CStr ''v'', CStr ''ok'', CStr [], CStr ''t'']])
   \<and> journal (snd (CSVLogger_flag example_env
                 (CSVLogger_setup [prompt, \<lparr>label = None, cls = OtherComponent\<rparr>] ''d'' None)
                 [None, Some ''v''] (Some ''ok'') None None fresh))
     = [SaveFlagged 1, Create ''d/log.csv'',
        Write ''d/log.csv'' (writerow QUOTE_NONNUMERIC (CHR 0x27)
          [CStr ''prompt'', CStr ''component 1'', CStr ''flag'', CStr ''username'', CStr ''timestamp'']),
        Write ''d/log.csv'' (writerow QUOTE_NONNUMERIC (CHR 0x27)
          [CStr [], CStr ''v'', CStr ''ok'', CStr [], CStr ''t''])]"
  using none_sample_is_empty_cell
    [of "CSVLogger_setup [prompt, \<lparr>label = None, cls = OtherComponent\<rparr>] ''d'' None"
        example_env "[None, Some ''v'']" "Some ''ok''" None fresh]
  by (simp add: example_defs logger_defs io_defs csv_defs str_nat.simps)

section \<open>Cardinality of header and records\<close>

text \<open>
  C3, as stated: the header and every record have the same number of cells at all times,
  and an operation that would break this fails. CSVLogger on two components, given one
  value, writes a header of five cells and a record of four, and returns the row count 1:
  \<^verbatim>\<open>zip\<close> stops at the shorter list and nothing compares the lengths.
\<close>

theorem short_values_counterexample:
  "CSVLogger_flag example_env (CSVLogger_setup [prompt, prompt] ''d'' None)
     [Some ''v''] (Some ''ok'') None None fresh
   = (Inr 1,
      \<lparr>files = [''d/log.csv'' \<mapsto>
          writerows QUOTE_NONNUMERIC (CHR 0x27)
            [[CStr ''prompt'', CStr ''prompt'', CStr ''flag'', CStr ''username'', CStr ''timestamp''],
             [CStr ''v'', CStr ''ok'', CStr [], CStr ''t'']]],
       journal =
         [SaveFlagged 0, Create ''d/log.csv'',
          Write ''d/log.csv'' (writerow QUOTE_NONNUMERIC (CHR 0x27)
            [CStr ''prompt'', CStr ''prompt'', CStr ''flag'', CStr ''username'', CStr ''timestamp'']),
          Write ''d/log.csv'' (writerow QUOTE_NONNUMERIC (CHR 0x27)
            [CStr ''v'', CStr ''ok'', CStr [], CStr ''t''])]\<rparr>)"
  by (simp add: example_defs logger_defs io_defs csv_defs)

text \<open>
  C3, amended: in the default local variant without a key, an append writes a record of
  three cells more than there are pairs of a component and a value, that is
  \<open>min (number of components) (number of values) + 3\<close>, after a header of three cells more
  than there are components when the file is new. The two agree when at least as many
  values as components are passed. No length is checked: whatever the lists are, the
  record is written.
\<close>

theorem append_row_cardinality:
  assumes "\<not> truthy (encryption_key self)"
  shows "\<exists>prefix csv_data.
      files (snd (CSVLogger_flag env self flag_data flag_option None username w))
        (os_path_join (flagging_dir self) ''log.csv'')
        = Some (prefix @ writerow QUOTE_NONNUMERIC (CHR 0x27) csv_data)
    \<and> prefix = (case files w (os_path_join (flagging_dir self) ''log.csv'') of
                  None \<Rightarrow> writerow QUOTE_NONNUMERIC (CHR 0x27) (headers_of (components self))
                | Some old \<Rightarrow> old)
    \<and> length csv_data = min (length (components self)) (length flag_data) + 3
    \<and> length (headers_of (components self)) = length (components self) + 3"
proof -
  let ?p = "os_path_join (flagging_dir self) ''log.csv''"
  let ?cells = "map (\<lambda>(i, c, s). case s of None \<Rightarrow> CStr []
                 | Some v \<Rightarrow> save_flagged env c (flagging_dir self) (Some (label_or c i)) (Some v)
                     (encryption_key self))
             (enumerate 0 (zip (components self) flag_data))
        @ [CStr (opt_str flag_option), CStr (opt_str username), CStr (now env)]"
  let ?prefix = "case files w ?p of
                  None \<Rightarrow> writerow QUOTE_NONNUMERIC (CHR 0x27) (headers_of (components self))
                | Some old \<Rightarrow> old"
  have written: "files (snd (CSVLogger_flag env self flag_data flag_option None username w)) ?p
      = Some (?prefix @ writerow QUOTE_NONNUMERIC (CHR 0x27) ?cells)"
    by (cases "files w ?p")
       (simp_all add: CSVLogger_append_world [OF assms refl refl refl refl])
  have cells: "length ?cells = min (length (components self)) (length flag_data) + 3"
    by simp
  have header: "length (headers_of (components self)) = length (components self) + 3"
    by (simp add: headers_of_def)
  from written cells header show ?thesis
    by blast
qed

theorem append_row_cardinality_witness:
  "\<not> truthy (encryption_key (CSVLogger_setup [prompt, prompt] ''d'' None))
   \<and> (\<exists>prefix csv_data.
      files (snd (CSVLogger_flag example_env (CSVLogger_setup [prompt, prompt] ''d'' None)
                    [Some ''v''] (Some ''ok'') None None fresh))
        (os_path_join (flagging_dir (CSVLogger_setup [prompt, prompt] ''d'' None)) ''log.csv'')
        = Some (prefix @ writerow QUOTE_NONNUMERIC (CHR 0x27) csv_data)
    \<and> prefix = (case files fresh
                       (os_path_join (flagging_dir (CSVLogger_setup [prompt, prompt] ''d'' None))
                          ''log.csv'') of
                  None \<Rightarrow> writerow QUOTE_NONNUMERIC (CHR 0x27)
                            (headers_of (components (CSVLogger_setup [prompt, prompt] ''d'' None)))
                | Some old \<Rightarrow> old)
    \<and> length csv_data
        = min (length (components (CSVLogger_setup [prompt, prompt] ''d'' None)))
            (length [Some ''v'']) + 3
    \<and> length (headers_of (components (CSVLogger_setup [prompt, prompt] ''d'' None)))
        = length (components (CSVLogger_setup [prompt, prompt] ''d'' None)) + 3)"
proof -
  have key: "\<not> truthy (encryption_key (CSVLogger_setup [prompt, prompt] ''d'' None))"
    by (simp add: CSVLogger_setup_def truthy_def)
  from append_row_cardinality [OF key, of example_env "[Some ''v'']" "Some ''ok''" None fresh]
  show ?thesis
    using key by blast
qed

section \<open>The update path of CSVLogger\<close>


lemma CSVLogger_update_run:
  assumes key: "\<not> truthy (encryption_key self)"
    and p: "p = os_path_join (flagging_dir self) ''log.csv''"
    and old: "files w p = Some old"
    and new: "res_bind (utf8_decode old) (\<lambda>text.
                replace_flag_at_index i flag_option (universal_newlines text)) = Inr new"
  shows "CSVLogger_flag env self flag_data flag_option (Some i) username w =
     count_rows p (Some ''utf-8'')
       (w\<lparr>files := (files w)(p \<mapsto> new), journal := journal w @ [Truncate p, Write p new]\<rparr>)"
  using key old new unfolding CSVLogger_flag_def plain_write_def p
  by (cases "utf8_decode old") (simp_all add: Let_def bind_steps res_bind_def)

lemma CSVLogger_update_raises:
  assumes key: "\<not> truthy (encryption_key self)"
    and p: "p = os_path_join (flagging_dir self) ''log.csv''"
    and old: "files w p = Some old"
    and err: "res_bind (utf8_decode old) (\<lambda>text.
                replace_flag_at_index i flag_option (universal_newlines text)) = Inl e"
  shows "CSVLogger_flag env self flag_data flag_option (Some i) username w = (Inl e, w)"
  using key old err unfolding CSVLogger_flag_def plain_write_def p
  by (cases "utf8_decode old") (simp_all add: Let_def bind_steps res_bind_def)

lemma CSVLogger_update_missing:
  assumes key: "\<not> truthy (encryption_key self)"
    and p: "p = os_path_join (flagging_dir self) ''log.csv''"
    and none: "files w p = None"
  shows "CSVLogger_flag env self flag_data flag_option (Some i) username w
           = (Inl FileNotFoundError, w)"
  using key none unfolding CSVLogger_flag_def plain_write_def p
  by (simp add: Let_def bind_steps)


text \<open>
  C6, as stated: the row update replaces the file by writing a temporary file and renaming
  it, so that an interruption never leaves a half-written file. On the log written without
  quotes, the update of row 1 has two effects, both on the log file itself: the file is
  emptied, then the new text is written. A call interrupted after the first of them leaves
  an empty log file.
\<close>

theorem update_interrupted_counterexample:
  "journal (snd (CSVLogger_flag example_env prompt_logger [] (Some ''bad'') (Some 1) None
                   unquoted_world))
     = [Truncate ''d/log.csv'',
        Write ''d/log.csv'' (writerows QUOTE_NONNUMERIC (CHR 0x27)
          [[CStr ''prompt'', CStr ''flag''], [CStr ''r0'', CStr ''bad''],
           [CStr ''r1'', CStr ''ok''], [CStr ''r2'', CStr ''ok'']])]
   \<and> files_after
        (take 1 (journal (snd (CSVLogger_flag example_env prompt_logger [] (Some ''bad'') (Some 1)
                                 None unquoted_world))))
        (files unquoted_world) ''d/log.csv''
     = Some []"
  by (simp add: example_defs logger_defs io_defs csv_defs)

text \<open>
  C6, amended: the row update of the default local variant without a key writes no
  temporary file and renames nothing. It reads and decodes the whole log file, sets the
  cell and encodes all rows again (lines 218 to 220). If that raises, because there is no
  file, because its bytes are not UTF-8, because the reader refuses them, because no cell
  of the first row is \<^verbatim>\<open>flag\<close> or because the index addresses no row, the call returns
  that exception and has written nothing. Otherwise it overwrites the log file in place
  (lines 221 to 224): its only effects on the files are to open the log file itself for
  writing, which empties it, and to write the whole new text into it; an interruption
  between the two leaves the log file empty. The label is a text that UTF-8 encodes.
\<close>

theorem update_overwrites_in_place:
  assumes "\<not> truthy (encryption_key self)"
    and "utf8_valid (opt_str flag_option)"
  shows "case files w (os_path_join (flagging_dir self) ''log.csv'') of
      None \<Rightarrow>
        CSVLogger_flag env self flag_data flag_option (Some i) username w
          = (Inl FileNotFoundError, w)
    | Some old \<Rightarrow>
       (case res_bind (utf8_decode old) (\<lambda>text.
               replace_flag_at_index i flag_option (universal_newlines text)) of
          Inl e \<Rightarrow>
            CSVLogger_flag env self flag_data flag_option (Some i) username w = (Inl e, w)
        | Inr new \<Rightarrow>
            journal (snd (CSVLogger_flag env self flag_data flag_option (Some i) username w))
              = journal w @ [Truncate (os_path_join (flagging_dir self) ''log.csv''),
                             Write (os_path_join (flagging_dir self) ''log.csv'') new]
          \<and> files (snd (CSVLogger_flag env self flag_data flag_option (Some i) username w))
              = files_after [Truncate (os_path_join (flagging_dir self) ''log.csv''),
                             Write (os_path_join (flagging_dir self) ''log.csv'') new] (files w)
          \<and> files_after [Truncate (os_path_join (flagging_dir self) ''log.csv'')] (files w)
                (os_path_join (flagging_dir self) ''log.csv'') = Some []
          \<and> files (snd (CSVLogger_flag env self flag_data flag_option (Some i) username w))
                (os_path_join (flagging_dir self) ''log.csv'') = Some new)"
proof (cases "files w (os_path_join (flagging_dir self) ''log.csv'')")
  case None
  then show ?thesis
    by (simp add: CSVLogger_update_missing [OF assms(1) refl])
next
  case (Some old)
  show ?thesis
  proof (cases "res_bind (utf8_decode old) (\<lambda>text.
               replace_flag_at_index i flag_option (universal_newlines text))")
    case (Inl e)
    with Some show ?thesis
      by (simp add: CSVLogger_update_raises [OF assms(1) refl Some Inl])
  next
    case (Inr new)
    with Some show ?thesis
      by (simp add: CSVLogger_update_run [OF assms(1) refl Some Inr] count_rows_world)
  qed
qed

text \<open>
  The witness takes the theorem at three stores: the log written without quotes, where
  the update goes through; the module's own log of three records, where the header
  lookup raises; the log that is not UTF-8, where reading raises.
\<close>

theorem update_overwrites_in_place_witness:
  "\<not> truthy (encryption_key prompt_logger)
   \<and> utf8_valid (opt_str (Some ''bad''))
   \<and> journal (snd (CSVLogger_flag example_env prompt_logger [] (Some ''bad'') (Some 1) None
                    unquoted_world))
       = [Truncate ''d/log.csv'',
          Write ''d/log.csv'' (writerows QUOTE_NONNUMERIC (CHR 0x27)
            [[CStr ''prompt'', CStr ''flag''], [CStr ''r0'', CStr ''bad''],
             [CStr ''r1'', CStr ''ok''], [CStr ''r2'', CStr ''ok'']])]
   \<and> files (snd (CSVLogger_flag example_env prompt_logger [] (Some ''bad'') (Some 1) None
                  unquoted_world)) ''d/log.csv''
       = Some (writerows QUOTE_NONNUMERIC (CHR 0x27)
           [[CStr ''prompt'', CStr ''flag''], [CStr ''r0'', CStr ''bad''],
            [CStr ''r1'', CStr ''ok''], [CStr ''r2'', CStr ''ok'']])
   \<and> CSVLogger_flag example_env prompt_logger [] (Some ''bad'') (Some 1) None three_rows
       = (Inl ValueError, three_rows)
   \<and> CSVLogger_flag example_env prompt_logger [] (Some ''bad'') (Some 1) None undecodable_world
       = (Inl UnicodeDecodeError, undecodable_world)"
proof -
  have key: "\<not> truthy (encryption_key prompt_logger)"
    by (simp add: example_defs logger_defs)
  have label: "utf8_valid (opt_str (Some ''bad''))"
    by (simp add: opt_str_def)
  have path: "os_path_join (flagging_dir prompt_logger) ''log.csv'' = ''d/log.csv''"
    by (simp add: example_defs logger_defs)
  have new: "res_bind (utf8_decode unquoted_log) (\<lambda>text.
        replace_flag_at_index 1 (Some ''bad'') (universal_newlines text))
      = Inr (writerows QUOTE_NONNUMERIC (CHR 0x27)
           [[CStr ''prompt'', CStr ''flag''], [CStr ''r0'', CStr ''bad''],
            [CStr ''r1'', CStr ''ok''], [CStr ''r2'', CStr ''ok'']])"
    by (simp add: example_defs logger_defs csv_defs)
  have own: "res_bind (utf8_decode (writerows QUOTE_NONNUMERIC (CHR 0x27)
           [[CStr ''prompt'', CStr ''flag'', CStr ''username'', CStr ''timestamp''],
            [CStr ''r0'', CStr ''ok'', CStr [], CStr ''t''],
            [CStr ''r1'', CStr ''ok'', CStr [], CStr ''t''],
            [CStr ''r2'', CStr ''ok'', CStr [], CStr ''t'']])) (\<lambda>text.
        replace_flag_at_index 1 (Some ''bad'') (universal_newlines text))
      = Inl ValueError"
    by (simp add: example_defs logger_defs csv_defs)
  have bad: "res_bind (utf8_decode undecodable_log) (\<lambda>text.
        replace_flag_at_index 1 (Some ''bad'') (universal_newlines text))
      = Inl UnicodeDecodeError"
    by (simp add: undecodable_log_def res_bind_def utf8_decode_def)
  from update_overwrites_in_place [OF key label, where w = unquoted_world and i = 1 and env = example_env
      and flag_data = "[]" and username = None]
  have first: "journal (snd (CSVLogger_flag example_env prompt_logger [] (Some ''bad'') (Some 1)
                    None unquoted_world))
       = [Truncate ''d/log.csv'',
          Write ''d/log.csv'' (writerows QUOTE_NONNUMERIC (CHR 0x27)
            [[CStr ''prompt'', CStr ''flag''], [CStr ''r0'', CStr ''bad''],
             [CStr ''r1'', CStr ''ok''], [CStr ''r2'', CStr ''ok'']])]
   \<and> files (snd (CSVLogger_flag example_env prompt_logger [] (Some ''bad'') (Some 1) None
                  unquoted_world)) ''d/log.csv''
       = Some (writerows QUOTE_NONNUMERIC (CHR 0x27)
           [[CStr ''prompt'', CStr ''flag''], [CStr ''r0'', CStr ''bad''],
            [CStr ''r1'', CStr ''ok''], [CStr ''r2'', CStr ''ok'']])"
    by (simp add: path new unquoted_world_def)
  from update_overwrites_in_place [OF key label, where w = three_rows and i = 1 and env = example_env
      and flag_data = "[]" and username = None]
  have second: "CSVLogger_flag example_env prompt_logger [] (Some ''bad'') (Some 1) None three_rows
       = (Inl ValueError, three_rows)"
    by (simp add: path own three_rows_eq)
  from update_overwrites_in_place [OF key label, where w = undecodable_world and i = 1 and env = example_env
      and flag_data = "[]" and username = None]
  have third: "CSVLogger_flag example_env prompt_logger [] (Some ''bad'') (Some 1) None
         undecodable_world = (Inl UnicodeDecodeError, undecodable_world)"
    by (simp add: path bad undecodable_world_def)
  from key label first second third show ?thesis
    by blast
qed

section \<open>Dispatch on the row index\<close>














section \<open>Sequencing of the remote variant\<close>























section \<open>The encrypted variant, for every store\<close>

text \<open>
  With an encryption key set, every call of \<^verbatim>\<open>CSVLogger.flag\<close> raises ValueError and leaves
  every file as it was, whatever the store, the values and the row index are: the first
  \<^verbatim>\<open>open\<close> the call reaches is in a binary mode with an encoding (line 190 when the log
  file exists, line 204 when it does not).
\<close>

theorem keyed_flag_always_raises:
  assumes "truthy (encryption_key self)"
  shows "fst (CSVLogger_flag env self flag_data flag_option flag_index username w) = Inl ValueError
    \<and> files (snd (CSVLogger_flag env self flag_data flag_option flag_index username w)) = files w"
proof (cases flag_index)
  case None
  show ?thesis
    using assms unfolding CSVLogger_flag_def encrypted_write_def None
    by (cases "files w (os_path_join (flagging_dir self) ''log.csv'')")
       (simp_all add: Let_def bind_steps csv_data_loop_run)
next
  case (Some i)
  show ?thesis
    using assms unfolding CSVLogger_flag_def encrypted_write_def Some
    by (cases "files w (os_path_join (flagging_dir self) ''log.csv'')")
       (simp_all add: Let_def bind_steps)
qed

theorem keyed_flag_always_raises_witness:
  "truthy (encryption_key (CSVLogger_setup [prompt] ''d'' (Some ''key'')))
   \<and> fst (CSVLogger_flag example_env (CSVLogger_setup [prompt] ''d'' (Some ''key''))
            [Some ''r0''] (Some ''ok'') None None fresh) = Inl ValueError
   \<and> files (snd (CSVLogger_flag example_env (CSVLogger_setup [prompt] ''d'' (Some ''key''))
                   [Some ''r0''] (Some ''ok'') None None fresh)) = files fresh"
proof -
  have key: "truthy (encryption_key (CSVLogger_setup [prompt] ''d'' (Some ''key'')))"
    by (simp add: CSVLogger_setup_def truthy_def)
  from keyed_flag_always_raises [OF key, of example_env "[Some ''r0'']" "Some ''ok''" None None fresh]
  show ?thesis
    using key by blast
qed

end
